theory Spec2Isabelle
  imports Main
begin

section \<open>Status values of the engine and of the framework\<close>

text \<open>
  The engine's status (\<open>common::Status\<close>) carries a type and a reason text; the
  framework's status (\<open>tensorflow::Status\<close>) carries a code and an error message.
  Both classes are declared outside the two source files; the constructors below are
  the ones \<open>mpi_ops.cc\<close> and \<open>gpu_operations.cc\<close> name. \<open>IN_PROGRESS\<close> is the type
  of \<open>Status::InProgress()\<close>; \<open>OTHER_CODE\<close> stands for every framework code the
  conversion does not name.
\<close>

datatype StatusType =
  OK | UNKNOWN_ERROR | PRECONDITION_ERROR | ABORTED | INVALID_ARGUMENT | IN_PROGRESS

record Status =
  status_type :: StatusType
  reason :: string

datatype Code =
  CODE_OK | CODE_UNKNOWN | CODE_FAILED_PRECONDITION | CODE_ABORTED
  | CODE_INVALID_ARGUMENT | OTHER_CODE nat

record tf_Status =
  code :: Code
  error_message :: string

definition Status_OK :: Status where
  "Status_OK = \<lparr>status_type = OK, reason = []\<rparr>"

definition Status_InProgress :: Status where
  "Status_InProgress = \<lparr>status_type = IN_PROGRESS, reason = []\<rparr>"

definition Status_UnknownError :: "string \<Rightarrow> Status" where
  "Status_UnknownError message = \<lparr>status_type = UNKNOWN_ERROR, reason = message\<rparr>"

definition Status_PreconditionError :: "string \<Rightarrow> Status" where
  "Status_PreconditionError message = \<lparr>status_type = PRECONDITION_ERROR, reason = message\<rparr>"

definition Status_Aborted :: "string \<Rightarrow> Status" where
  "Status_Aborted message = \<lparr>status_type = ABORTED, reason = message\<rparr>"

definition Status_InvalidArgument :: "string \<Rightarrow> Status" where
  "Status_InvalidArgument message = \<lparr>status_type = INVALID_ARGUMENT, reason = message\<rparr>"

definition tf_Status_OK :: tf_Status where
  "tf_Status_OK = \<lparr>code = CODE_OK, error_message = []\<rparr>"

definition errors_Unknown :: "string \<Rightarrow> tf_Status" where
  "errors_Unknown msg = \<lparr>code = CODE_UNKNOWN, error_message = msg\<rparr>"

definition errors_FailedPrecondition :: "string \<Rightarrow> tf_Status" where
  "errors_FailedPrecondition msg = \<lparr>code = CODE_FAILED_PRECONDITION, error_message = msg\<rparr>"

definition errors_Aborted :: "string \<Rightarrow> tf_Status" where
  "errors_Aborted msg = \<lparr>code = CODE_ABORTED, error_message = msg\<rparr>"

definition errors_InvalidArgument :: "string \<Rightarrow> tf_Status" where
  "errors_InvalidArgument msg = \<lparr>code = CODE_INVALID_ARGUMENT, error_message = msg\<rparr>"

text \<open>
  \<open>ConvertStatus(const common::Status&)\<close>, \<open>mpi_ops.cc\<close> lines 89 to 104. The two
  overloads share one name in the source; the suffix tells them apart here.
\<close>

definition ConvertStatus_to_tf :: "Status \<Rightarrow> tf_Status" where
  "ConvertStatus_to_tf status =
     (case status_type status of
        OK \<Rightarrow> tf_Status_OK
      | UNKNOWN_ERROR \<Rightarrow> errors_Unknown (reason status)
      | PRECONDITION_ERROR \<Rightarrow> errors_FailedPrecondition (reason status)
      | ABORTED \<Rightarrow> errors_Aborted (reason status)
      | INVALID_ARGUMENT \<Rightarrow> errors_InvalidArgument (reason status)
      | _ \<Rightarrow> errors_Unknown ''Unknown error.'')"

text \<open>\<open>ConvertStatus(const Status&)\<close>, \<open>mpi_ops.cc\<close> lines 106 to 121.\<close>

definition ConvertStatus_to_common :: "tf_Status \<Rightarrow> Status" where
  "ConvertStatus_to_common status =
     (case code status of
        CODE_OK \<Rightarrow> Status_OK
      | CODE_UNKNOWN \<Rightarrow> Status_UnknownError (error_message status)
      | CODE_FAILED_PRECONDITION \<Rightarrow> Status_PreconditionError (error_message status)
      | CODE_ABORTED \<Rightarrow> Status_Aborted (error_message status)
      | CODE_INVALID_ARGUMENT \<Rightarrow> Status_InvalidArgument (error_message status)
      | _ \<Rightarrow> Status_UnknownError ''Unknown error.'')"

definition convertible :: "StatusType \<Rightarrow> bool" where
  "convertible t = (t = OK \<or> t = UNKNOWN_ERROR \<or> t = PRECONDITION_ERROR \<or> t = ABORTED
     \<or> t = INVALID_ARGUMENT)"

section \<open>Integers of the source\<close>

text \<open>
  The counters of the engine are C++ \<open>int\<close>s. Division and remainder truncate towards
  zero, the remainder takes the sign of the dividend, and a remainder by zero is
  undefined; \<open>int_range\<close> is the range of a 32-bit \<open>int\<close>.
\<close>

definition c_div :: "int \<Rightarrow> int \<Rightarrow> int" where
  "c_div a b = sgn a * sgn b * (\<bar>a\<bar> div \<bar>b\<bar>)"

definition c_rem :: "int \<Rightarrow> int \<Rightarrow> int" where
  "c_rem a b = a - c_div a b * b"

definition int_range :: "int \<Rightarrow> bool" where
  "int_range x = (- 2147483648 \<le> x \<and> x \<le> 2147483647)"

text \<open>\<open>v[i]\<close> on a \<open>std::vector\<close>: outside the vector the read is undefined.\<close>

definition vector_at :: "'a list \<Rightarrow> int \<Rightarrow> 'a option" where
  "vector_at v i = (if 0 \<le> i \<and> i < int (length v) then Some (v ! nat i) else None)"

section \<open>The data of the GPU operation context\<close>

text \<open>
  A stream handle (\<open>gpuStream_t\<close>) is a number, \<open>None\<close> the null handle. The stream
  table \<open>streams\<close> is indexed by generation (\<open>current_nccl_stream\<close>) and by slot; the
  address of one of its elements is the pair of the two indices, and a pointer to an
  element (\<open>gpuStream_t*\<close>) is such an address or \<open>None\<close>, the null pointer. An
  element never yet written holds the null handle. An event is the handle of the stream
  it was recorded on. The declarations of \<open>GPUContext\<close>, \<open>HorovodGlobalState\<close> and
  \<open>TensorTableEntry\<close> are in headers outside the two source files; the records hold the
  members that \<open>gpu_operations.cc\<close> reads and writes.
\<close>

type_synonym gpuStream_t = "nat option"
type_synonym stream_slot = "int \<times> int"
type_synonym gpuEvent_t = "nat option"

text \<open>
  A callback (\<open>std::function\<close>) is named by a number, \<open>None\<close> the empty function;
  \<open>context_framework\<close> is what \<open>context->framework()\<close> returns.
\<close>

record TensorTableEntry =
  tensor_name :: string
  device :: int
  context_framework :: nat
  callback :: "nat option"

record HorovodGlobalState =
  current_nccl_stream :: int
  num_nccl_streams :: int
  current_gpu_stream :: int
  stream_assignment :: "int list"
  stream_index :: int
  timeline_Initialized :: bool

text \<open>
  What the lambda of \<open>FinalizeGPUQueue\<close> captures (lines 108 and 109): the entries, the
  first entry, the host buffer pointer, the fusion buffer (named by the key it was
  fetched with: device, framework, generation), the flag, the event queue by value and
  the error-check callback.
\<close>

record finalization_task =
  t_entries :: "TensorTableEntry list"
  t_first_entry :: TensorTableEntry
  t_cpu_buffer :: "nat option"
  t_fusion_buffer :: "int \<times> nat \<times> int"
  t_free_host_buffer :: bool
  t_evt_queue :: "(string \<times> gpuEvent_t) list"
  t_error_check_callback :: "nat option"

text \<open>
  The calls a thread makes into the GPU context, the timeline, the allocator and the
  callbacks, in the order it makes them.
\<close>

datatype action =
    Call_SetDevice int
  | Call_StreamCreate "stream_slot option"
  | Call_RecordEvent string gpuStream_t
  | Call_execute finalization_task
  | Call_WaitForEvents "(string \<times> gpuEvent_t) list" "nat option"
  | Call_release_fusion_buffer "int \<times> nat \<times> int"
  | Call_free nat
  | Call_timeline_End string
  | Call_callback nat Status

record GPUContext =
  streams :: "stream_slot \<Rightarrow> gpuStream_t"
  streams_created :: nat
  finalizer_thread_pool :: "finalization_task list"

text \<open>
  \<open>GPUOpContext\<close>: its pointers \<open>gpu_context_\<close> and \<open>global_state_\<close> to the shared context and global state (named here without the trailing underscore), its own
  members, and \<open>issued\<close>, the calls made so far by the thread that runs the operation.
\<close>

record GPUOpContext =
  gpu_context :: GPUContext
  global_state :: HorovodGlobalState
  stream :: "stream_slot option"
  new_stream :: "stream_slot option"
  event_queue :: "(string \<times> gpuEvent_t) list"
  host_buffer :: "nat option"
  issued :: "action list"

text \<open>
  Where the source runs into undefined behaviour: \<open>entries[0]\<close> of an empty vector,
  \<open>stream_assignment[current_gpu_stream]\<close> outside the table, \<open>*stream\<close> of a null
  pointer, a remainder by zero, a signed overflow.
\<close>

datatype fault =
  EmptyEntries | AssignmentOutOfRange | NullStreamPointer | RemainderByZero | SignedOverflow

section \<open>Methods of the GPU context\<close>

text \<open>
  Modelled from the spec: \<open>GPUContext::SetDevice\<close>, whose body is outside the source
  files; "selects the batch's device context". It is recorded as a call.
\<close>

definition SetDevice :: "int \<Rightarrow> GPUOpContext \<Rightarrow> GPUOpContext" where
  "SetDevice d c = c\<lparr>issued := issued c @ [Call_SetDevice d]\<rparr>"

text \<open>
  Modelled from the spec: \<open>GPUContext::StreamCreate\<close>, whose body is outside the source
  files; "first caller for a given key creates the stream". It makes a handle no
  earlier call has made and writes it through the pointer it is given; through a null
  pointer there is no element to write.
\<close>

definition StreamCreate :: "stream_slot option \<Rightarrow> GPUOpContext \<Rightarrow> GPUOpContext" where
  "StreamCreate ptr c =
     (let g = gpu_context c;
          h = streams_created g;
          g' = (case ptr of
                  None \<Rightarrow> g\<lparr>streams_created := Suc h\<rparr>
                | Some p \<Rightarrow> g\<lparr>streams := (streams g)(p := Some h), streams_created := Suc h\<rparr>)
      in c\<lparr>gpu_context := g', issued := issued c @ [Call_StreamCreate ptr]\<rparr>)"

text \<open>
  Modelled from the spec: \<open>GPUContext::RecordEvent\<close>, whose body is outside the source
  files; the event queue is an "ordered sequence of (marker-name, event) pairs,
  append-only". The marker is appended to the queue of the operation context.
\<close>

definition RecordEvent :: "string \<Rightarrow> gpuStream_t \<Rightarrow> GPUOpContext \<Rightarrow> GPUOpContext" where
  "RecordEvent name s c =
     c\<lparr>event_queue := event_queue c @ [(name, s)],
       issued := issued c @ [Call_RecordEvent name s]\<rparr>"

text \<open>
  Modelled from the spec: \<open>finalizer_thread_pool.execute\<close>, whose body is outside the
  source files; "submits a finalization task to the background pool". The task joins
  the pool's queue; the calling thread does not run it.
\<close>

definition execute :: "finalization_task \<Rightarrow> GPUOpContext \<Rightarrow> GPUOpContext" where
  "execute t c =
     c\<lparr>gpu_context := (gpu_context c)
          \<lparr>finalizer_thread_pool := finalizer_thread_pool (gpu_context c) @ [t]\<rparr>,
       issued := issued c @ [Call_execute t]\<rparr>"

text \<open>The name of the timeline marker \<open>QUEUE\<close>, a macro of the timeline header.\<close>

definition QUEUE :: string where
  "QUEUE = ''QUEUE''"

section \<open>Beginning a batch\<close>

text \<open>
  \<open>GPUOpContext::InitGPU\<close>, lines 36 to 54. The function returns nothing; the model
  also hands back the local \<open>stream_index\<close> as it stands at line 49 (primed here:
  the global state has a member of that name).
\<close>

definition InitGPU ::
  "TensorTableEntry list \<Rightarrow> bool \<Rightarrow> bool \<Rightarrow> GPUOpContext \<Rightarrow> fault + (int \<times> GPUOpContext)" where
  "InitGPU entries is_allreduce is_para c =
     (case entries of
        [] \<Rightarrow> Inl EmptyEntries
      | first_entry # _ \<Rightarrow>
          let c1 = SetDevice (device first_entry) c;
              gs = global_state c1
          in (case (if is_allreduce
                    then (case vector_at (stream_assignment gs) (current_gpu_stream gs) of
                            None \<Rightarrow> Inl AssignmentOutOfRange
                          | Some a \<Rightarrow> Inr (if is_para then 8 else a))
                    else Inr (device first_entry)) of
                Inl f \<Rightarrow> Inl f
              | Inr stream_index' \<Rightarrow>
                  let p = (current_nccl_stream gs, stream_index')
                  in Inr (stream_index',
                          if streams (gpu_context c1) p = None
                          then StreamCreate (Some p) c1 else c1)))"

text \<open>
  \<open>GPUOpContext::InitNewStream\<close>, lines 57 to 64. The argument \<open>times\<close> is \<open>times0\<close> on entry
  and \<open>times'\<close> once line 58 has reassigned it. \<open>new_stream_p\<close> (the local
  \<open>new_stream_\<close>) is the address of the table element, and it is this pointer that
  line 60 compares with null.
\<close>

definition InitNewStream :: "int \<Rightarrow> GPUOpContext \<Rightarrow> GPUOpContext" where
  "InitNewStream times0 c =
     (let times' = c_rem times0 10 + 3;
          new_stream_p = Some (current_nccl_stream (global_state c), times');
          c1 = (if new_stream_p = None then StreamCreate new_stream_p c else c)
      in c1\<lparr>new_stream := new_stream_p\<rparr>)"

text \<open>
  \<open>GPUOpContext::InitGPUQueue\<close>, lines 67 to 90. The \<open>response\<close> argument is not
  read and the two \<open>printf\<close> lines only print. At line 88 the table was read at
  \<open>current_gpu_stream\<close> on line 71, so the pointer is inside the table and the table is
  not empty.
\<close>

definition InitGPUQueue ::
  "TensorTableEntry list \<Rightarrow> bool \<Rightarrow> bool \<Rightarrow> GPUOpContext \<Rightarrow> fault + GPUOpContext" where
  "InitGPUQueue entries is_allreduce is_para c =
     (let c0 = c\<lparr>event_queue := []\<rparr>;
          gs = global_state c0
      in case entries of
           [] \<Rightarrow> Inl EmptyEntries
         | e0 # _ \<Rightarrow>
            (case (if is_allreduce
                   then (case vector_at (stream_assignment gs) (current_gpu_stream gs) of
                           None \<Rightarrow> Inl AssignmentOutOfRange
                         | Some a \<Rightarrow>
                             let stream_index' = (if is_para then 8 else a)
                             in Inr (stream_index', gs\<lparr>stream_index := stream_index'\<rparr>))
                   else Inr (device e0, gs)) of
               Inl f \<Rightarrow> Inl f
             | Inr (stream_index', gs1) \<Rightarrow>
                 let p = (current_nccl_stream gs1, stream_index');
                     c1 = c0\<lparr>global_state := gs1, stream := Some p\<rparr>;
                     c2 = (if timeline_Initialized gs1
                           then RecordEvent QUEUE (streams (gpu_context c1) p) c1 else c1)
                 in Inr (if is_allreduce
                         then c2\<lparr>global_state := gs1
                                \<lparr>current_gpu_stream :=
                                   (current_gpu_stream gs1 + 1)
                                     mod int (length (stream_assignment gs1))\<rparr>\<rparr>
                         else c2)))"

section \<open>Finishing a batch\<close>

text \<open>
  \<open>GPUOpContext::FinalizeGPUQueue\<close>, lines 92 to 131, up to the hand-over: the marker
  with the empty name, the captures, the submission, the new generation index and the
  returned status.
\<close>

definition FinalizeGPUQueue ::
  "TensorTableEntry list \<Rightarrow> bool \<Rightarrow> nat option \<Rightarrow> GPUOpContext \<Rightarrow> fault + (Status \<times> GPUOpContext)" where
  "FinalizeGPUQueue entries free_host_buffer error_check_callback c =
     (case stream c of
        None \<Rightarrow> Inl NullStreamPointer
      | Some p \<Rightarrow>
          let c1 = RecordEvent [] (streams (gpu_context c) p) c
          in (case entries of
                [] \<Rightarrow> Inl EmptyEntries
              | first_entry # _ \<Rightarrow>
                  let gs = global_state c1;
                      task = \<lparr>t_entries = entries,
                              t_first_entry = first_entry,
                              t_cpu_buffer = host_buffer c1,
                              t_fusion_buffer = (device first_entry,
                                 context_framework first_entry, current_nccl_stream gs),
                              t_free_host_buffer = free_host_buffer,
                              t_evt_queue = event_queue c1,
                              t_error_check_callback = error_check_callback\<rparr>;
                      c2 = execute task c1
                  in if \<not> int_range (current_nccl_stream gs + 1) then Inl SignedOverflow
                     else if num_nccl_streams gs = 0 then Inl RemainderByZero
                     else Inr (Status_InProgress,
                               c2\<lparr>global_state := gs
                                  \<lparr>current_nccl_stream :=
                                     c_rem (current_nccl_stream gs + 1) (num_nccl_streams gs)\<rparr>\<rparr>)))"

text \<open>The loop of lines 117 to 123, over the entries in batch order.\<close>

fun shutdown_entries :: "TensorTableEntry list \<Rightarrow> action list" where
  "shutdown_entries [] = []"
| "shutdown_entries (e # es) =
     Call_timeline_End (tensor_name e)
       # (case callback e of None \<Rightarrow> [] | Some f \<Rightarrow> [Call_callback f Status_OK])
       @ shutdown_entries es"

text \<open>
  How the wait of line 112 ends, as the lambda sees it. \<open>WaitForEvents\<close> is a method
  of the GPU context outside the source files; it is handed the error-check callback, a
  \<open>std::function<void()>\<close>, and returns nothing to the lambda. Neither can hand a
  status back: a device error met during the wait reaches the lambda only as an
  exception thrown out of line 112, by the wait or by the callback, with its message.
\<close>

datatype wait_outcome = WaitReturned | WaitThrew string

text \<open>
  The body of the lambda, lines 110 to 123, as a pool thread runs it: the calls it makes,
  in order, and the exception that leaves it, if one does. The lambda has no
  \<open>try\<close>: an exception out of line 112 leaves the body there, and lines 113 to 123
  do not run.
\<close>

definition run_finalization_task ::
  "finalization_task \<Rightarrow> wait_outcome \<Rightarrow> action list \<times> string option" where
  "run_finalization_task t w =
     (let upto_wait = [Call_SetDevice (device (t_first_entry t)),
                       Call_WaitForEvents (t_evt_queue t) (t_error_check_callback t)]
      in case w of
           WaitThrew r \<Rightarrow> (upto_wait, Some r)
         | WaitReturned \<Rightarrow>
             (upto_wait
              @ (case (t_free_host_buffer t, t_cpu_buffer t) of
                   (True, Some b) \<Rightarrow> [Call_free b]
                 | _ \<Rightarrow> [])
              @ shutdown_entries (t_entries t), None))"

text \<open>
  Modelled from the spec: the worker of the pool that runs a task, whose code is outside
  the source files. "A fixed-size background worker pool executes finalization tasks";
  the staging buffer's "ownership is shared (reference-counted) between the execution
  context and the background finalizer", "releasable by whichever owner retires last".
  The body of the lambda never names the fusion buffer it captured, so the body never
  releases it: the reference goes when the task object is destroyed. The worker runs
  the body, and when the body has returned the task retires and its reference to the
  fusion buffer is released. When an exception leaves the body, the run is followed no
  further: the task has not retired, and neither the spec nor the source files say what
  a worker does with an exception.
\<close>

definition worker_runs_task ::
  "finalization_task \<Rightarrow> wait_outcome \<Rightarrow> action list \<times> string option" where
  "worker_runs_task t w =
     (case run_finalization_task t w of
        (cs, None) \<Rightarrow> (cs @ [Call_release_fusion_buffer (t_fusion_buffer t)], None)
      | (cs, Some r) \<Rightarrow> (cs, Some r))"

text \<open>
  What a run's calls show: the statuses handed to callbacks, the host buffers freed and
  the references to fusion buffers released.
\<close>

fun callbacks_invoked :: "action list \<Rightarrow> (nat \<times> Status) list" where
  "callbacks_invoked [] = []"
| "callbacks_invoked (Call_callback f st # as) = (f, st) # callbacks_invoked as"
| "callbacks_invoked (_ # as) = callbacks_invoked as"

fun buffers_freed :: "action list \<Rightarrow> nat list" where
  "buffers_freed [] = []"
| "buffers_freed (Call_free b # as) = b # buffers_freed as"
| "buffers_freed (_ # as) = buffers_freed as"

fun fusion_buffers_released :: "action list \<Rightarrow> (int \<times> nat \<times> int) list" where
  "fusion_buffers_released [] = []"
| "fusion_buffers_released (Call_release_fusion_buffer k # as) = k # fusion_buffers_released as"
| "fusion_buffers_released (_ # as) = fusion_buffers_released as"

fun waits :: "action list \<Rightarrow> nat" where
  "waits [] = 0"
| "waits (Call_WaitForEvents q f # as) = Suc (waits as)"
| "waits (_ # as) = waits as"

text \<open>The callbacks of a batch that are not null, in batch order.\<close>

fun callbacks_of :: "TensorTableEntry list \<Rightarrow> nat list" where
  "callbacks_of [] = []"
| "callbacks_of (e # es) =
     (case callback e of None \<Rightarrow> callbacks_of es | Some f \<Rightarrow> f # callbacks_of es)"

section \<open>Batches one after another\<close>

text \<open>
  One operation context finishing a sequence of batches, each with its flag and
  error-check callback; the first fault ends the run.
\<close>

fun finalize_batches ::
  "(TensorTableEntry list \<times> bool \<times> nat option) list \<Rightarrow> GPUOpContext \<Rightarrow> fault + GPUOpContext" where
  "finalize_batches [] c = Inr c"
| "finalize_batches ((entries, free_host_buffer, error_check_callback) # bs) c =
     (case FinalizeGPUQueue entries free_host_buffer error_check_callback c of
        Inl f \<Rightarrow> Inl f
      | Inr (st, c') \<Rightarrow> finalize_batches bs c')"

section \<open>A fresh context and some entries\<close>

text \<open>
  The state before any batch: no stream created, generation 0 of \<open>n\<close>, the rotating
  pointer at the start of the assignment table.
\<close>

definition fresh_context :: "int \<Rightarrow> int list \<Rightarrow> GPUOpContext" where
  "fresh_context n table =
     \<lparr>gpu_context = \<lparr>streams = (\<lambda>p. None), streams_created = 0, finalizer_thread_pool = []\<rparr>,
      global_state = \<lparr>current_nccl_stream = 0, num_nccl_streams = n, current_gpu_stream = 0,
         stream_assignment = table, stream_index = 0, timeline_Initialized = False\<rparr>,
      stream = None, new_stream = None, event_queue = [], host_buffer = None, issued = []\<rparr>"

definition entry :: "string \<Rightarrow> int \<Rightarrow> nat option \<Rightarrow> TensorTableEntry" where
  "entry name d cb = \<lparr>tensor_name = name, device = d, context_framework = 0, callback = cb\<rparr>"

text \<open>
  A fused batch of three entries as the lambda captured it, with a host buffer to free;
  the same batch with a join request, whose callback is null, in the middle; a context
  whose queue has begun on slot 5 of generation 0, with two generations; and
  three batches to finish one after another.
\<close>

definition batch3 :: finalization_task where
  "batch3 =
     \<lparr>t_entries = [entry ''a'' 0 (Some 1), entry ''b'' 0 (Some 2), entry ''c'' 0 (Some 3)],
      t_first_entry = entry ''a'' 0 (Some 1),
      t_cpu_buffer = Some 7,
      t_fusion_buffer = (0, 0, 0),
      t_free_host_buffer = True,
      t_evt_queue = [([], None)],
      t_error_check_callback = Some 9\<rparr>"

definition join_batch :: finalization_task where
  "join_batch =
     batch3\<lparr>t_entries :=
        [entry ''a'' 0 (Some 1), entry ''join'' 0 None, entry ''c'' 0 (Some 3)]\<rparr>"

definition queued_context :: GPUOpContext where
  "queued_context = (fresh_context 2 [5, 6, 7])\<lparr>stream := Some (0, 5), host_buffer := Some 7\<rparr>"

definition three_batches :: "(TensorTableEntry list \<times> bool \<times> nat option) list" where
  "three_batches =
     [([entry ''a'' 0 (Some 1)], True, None),
      ([entry ''b'' 0 (Some 2), entry ''c'' 0 None], True, None),
      ([entry ''d'' 0 (Some 3)], False, Some 4)]"

section \<open>Status conversion\<close>

lemmas status_ctor_defs =
  Status_OK_def Status_InProgress_def Status_UnknownError_def Status_PreconditionError_def
  Status_Aborted_def Status_InvalidArgument_def tf_Status_OK_def errors_Unknown_def
  errors_FailedPrecondition_def errors_Aborted_def errors_InvalidArgument_def

text \<open>
  C9. Converting an engine status to a framework status and back keeps the type when
  the type is one of OK, Unknown, PreconditionFailed, Aborted or InvalidArgument, and
  keeps the reason text when that type is not OK; every other engine type comes back
  as Unknown (with the text "Unknown error."), and every framework code the
  conversion does not name becomes an engine Unknown as well.
\<close>

theorem ConvertStatus_round_trip:
  "(convertible (status_type s) \<longrightarrow>
      status_type (ConvertStatus_to_common (ConvertStatus_to_tf s)) = status_type s)
   \<and> (convertible (status_type s) \<and> status_type s \<noteq> OK \<longrightarrow>
      reason (ConvertStatus_to_common (ConvertStatus_to_tf s)) = reason s)
   \<and> (\<not> convertible (status_type s) \<longrightarrow>
      code (ConvertStatus_to_tf s) = CODE_UNKNOWN
      \<and> ConvertStatus_to_common (ConvertStatus_to_tf s) = Status_UnknownError ''Unknown error.'')
   \<and> ConvertStatus_to_common \<lparr>code = OTHER_CODE k, error_message = m\<rparr>
        = Status_UnknownError ''Unknown error.''"
  by (cases "status_type s")
     (simp_all add: ConvertStatus_to_tf_def ConvertStatus_to_common_def convertible_def
        status_ctor_defs)

theorem ConvertStatus_round_trip_witness:
  "convertible (status_type (Status_Aborted ''peer left''))
   \<and> status_type (Status_Aborted ''peer left'') \<noteq> OK
   \<and> ConvertStatus_to_common (ConvertStatus_to_tf (Status_Aborted ''peer left''))
       = Status_Aborted ''peer left''
   \<and> \<not> convertible (status_type Status_InProgress)
   \<and> ConvertStatus_to_common (ConvertStatus_to_tf Status_InProgress)
       = Status_UnknownError ''Unknown error.''"
  using ConvertStatus_round_trip [of "Status_Aborted ''peer left''" 0 "[]"]
    ConvertStatus_round_trip [of Status_InProgress 0 "[]"]
  by (simp add: convertible_def status_ctor_defs ConvertStatus_to_tf_def
      ConvertStatus_to_common_def)

section \<open>Facts about the integers and the call lists\<close>

lemma c_rem_nonneg: "0 \<le> a \<Longrightarrow> 0 < b \<Longrightarrow> c_rem a b = a mod b"
  by (cases "a = 0") (simp_all add: c_rem_def c_div_def minus_div_mult_eq_mod)

lemma callbacks_invoked_append:
  "callbacks_invoked (xs @ ys) = callbacks_invoked xs @ callbacks_invoked ys"
  by (induction xs rule: callbacks_invoked.induct) simp_all

lemma buffers_freed_append:
  "buffers_freed (xs @ ys) = buffers_freed xs @ buffers_freed ys"
  by (induction xs rule: buffers_freed.induct) simp_all

lemma waits_append: "waits (xs @ ys) = waits xs + waits ys"
  by (induction xs rule: waits.induct) simp_all

lemma callbacks_invoked_shutdown:
  "callbacks_invoked (shutdown_entries es) = map (\<lambda>f. (f, Status_OK)) (callbacks_of es)"
  by (induction es) (simp_all split: option.splits)

lemma buffers_freed_shutdown: "buffers_freed (shutdown_entries es) = []"
  by (induction es) (simp_all split: option.splits)

section \<open>The slot a batch begins on\<close>

text \<open>
  C3, as the claim states it, fails: a batch that is not a reduction and asks for the
  dedicated slot begins on its device id, here 2, and not on the dedicated slot 8, in
  \<open>InitGPU\<close> and in \<open>InitGPUQueue\<close> alike, because \<open>is_para\<close> is read only inside
  the branch of \<open>is_allreduce\<close>.
\<close>

theorem dedicated_slot_ignored_without_reduction:
  "map_sum id fst (InitGPU [entry ''t'' 2 None] False True (fresh_context 1 [5, 6, 7])) = Inr 2
   \<and> map_sum id stream (InitGPUQueue [entry ''t'' 2 None] False True (fresh_context 1 [5, 6, 7]))
       = Inr (Some (0, 2))"
  by (simp add: InitGPU_def InitGPUQueue_def fresh_context_def entry_def SetDevice_def
      StreamCreate_def Let_def)

text \<open>
  C3, amended. On a non-empty entries list, with the rotation pointer inside the
  assignment table when the batch is a reduction, \<open>InitGPU\<close> and \<open>InitGPUQueue\<close>
  both return and select the same slot: for a reduction, the dedicated slot 8 if
  \<open>is_para\<close> is set and otherwise the table's element at the rotation pointer; for any
  other batch the first entry's device id, whatever \<open>is_para\<close> says.
\<close>

theorem stream_slot_selection:
  assumes "entries = e # es"
    and "is_allreduce \<longrightarrow>
           vector_at (stream_assignment (global_state c)) (current_gpu_stream (global_state c))
             = Some a"
    and "slot = (if is_allreduce then (if is_para then 8 else a) else device e)"
  shows "(\<exists>c'. InitGPU entries is_allreduce is_para c = Inr (slot, c'))
         \<and> (\<exists>c'. InitGPUQueue entries is_allreduce is_para c = Inr c'
               \<and> stream c' = Some (current_nccl_stream (global_state c), slot))"
  using assms
  by (auto simp: InitGPU_def InitGPUQueue_def SetDevice_def RecordEvent_def Let_def)

text \<open>
  A reduction batch on a fresh context with the table 5, 6, 7 begins on slot 5, the
  table's first element.
\<close>

theorem stream_slot_selection_witness:
  "map_sum id fst (InitGPU [entry ''t'' 2 None] True False (fresh_context 1 [5, 6, 7])) = Inr 5
   \<and> map_sum id stream (InitGPUQueue [entry ''t'' 2 None] True False (fresh_context 1 [5, 6, 7]))
       = Inr (Some (0, 5))"
  using stream_slot_selection
    [of "[entry ''t'' 2 None]" "entry ''t'' 2 None" "[]" True "fresh_context 1 [5, 6, 7]" 5 5 False]
  by (auto simp: fresh_context_def vector_at_def)

section \<open>The rotation pointer\<close>

text \<open>
  C4, as the claim states it, fails: \<open>InitGPU\<close> on a reduction batch leaves the
  rotation pointer where it was, at 0, while one step modulo the table's size 3 would
  make it 1.
\<close>

theorem InitGPU_keeps_rotation_pointer:
  "map_sum id (\<lambda>r. current_gpu_stream (global_state (snd r)))
     (InitGPU [entry ''t'' 2 None] True False (fresh_context 1 [5, 6, 7])) = Inr 0
   \<and> (current_gpu_stream (global_state (fresh_context 1 [5, 6, 7])) + 1)
        mod int (length (stream_assignment (global_state (fresh_context 1 [5, 6, 7])))) = 1"
  by (simp add: InitGPU_def fresh_context_def entry_def SetDevice_def
      StreamCreate_def Let_def vector_at_def)

text \<open>
  C4, amended. It is \<open>InitGPUQueue\<close> that moves the rotation pointer: for a reduction
  batch it advances the pointer by one modulo the size of the assignment table, once
  for the batch however many entries it has, and for any other batch it leaves the
  pointer unchanged; \<open>InitGPU\<close> never changes the pointer, nor anything else of the
  global state.
\<close>

theorem rotation_pointer_advance:
  assumes "entries = e # es"
    and "is_allreduce \<longrightarrow>
           vector_at (stream_assignment (global_state c)) (current_gpu_stream (global_state c))
             = Some a"
  shows "(\<exists>s c'. InitGPU entries is_allreduce is_para c = Inr (s, c')
            \<and> global_state c' = global_state c)
         \<and> (\<exists>c'. InitGPUQueue entries is_allreduce is_para c = Inr c'
               \<and> stream_assignment (global_state c') = stream_assignment (global_state c)
               \<and> current_gpu_stream (global_state c')
                   = (if is_allreduce
                      then (current_gpu_stream (global_state c) + 1)
                             mod int (length (stream_assignment (global_state c)))
                      else current_gpu_stream (global_state c)))"
  using assms
  by (auto simp: InitGPU_def InitGPUQueue_def SetDevice_def StreamCreate_def RecordEvent_def
      Let_def)

text \<open>
  A reduction batch of three entries moves the pointer from 0 to 1 in \<open>InitGPUQueue\<close>,
  not to 3, and leaves it at 0 in \<open>InitGPU\<close>.
\<close>

theorem rotation_pointer_advance_witness:
  "map_sum id (\<lambda>c. current_gpu_stream (global_state c))
     (InitGPUQueue [entry ''a'' 0 None, entry ''b'' 0 None, entry ''c'' 0 None] True False
        (fresh_context 1 [5, 6, 7])) = Inr 1
   \<and> map_sum id (\<lambda>r. current_gpu_stream (global_state (snd r)))
     (InitGPU [entry ''a'' 0 None, entry ''b'' 0 None, entry ''c'' 0 None] True False
        (fresh_context 1 [5, 6, 7])) = Inr 0"
  using rotation_pointer_advance
    [of "[entry ''a'' 0 None, entry ''b'' 0 None, entry ''c'' 0 None]" "entry ''a'' 0 None"
        "[entry ''b'' 0 None, entry ''c'' 0 None]" True "fresh_context 1 [5, 6, 7]" 5 False]
  by (auto simp: fresh_context_def vector_at_def)

section \<open>Looking a stream up\<close>

text \<open>
  The lookup of \<open>InitGPU\<close> (lines 49 to 52) creates the stream when the element holds the
  null handle, finds it there the second time, and never overwrites a handle.
\<close>

lemma InitGPU_creates:
  assumes "InitGPU entries is_allreduce is_para c = Inr (s, c')"
  shows "streams (gpu_context c') (current_nccl_stream (global_state c), s) \<noteq> None"
  using assms
  by (auto simp: InitGPU_def SetDevice_def StreamCreate_def Let_def
      split: list.splits option.splits if_splits)

lemma InitGPU_keeps_streams:
  assumes "InitGPU entries is_allreduce is_para c = Inr (s, c')"
    and "streams (gpu_context c) k = Some h"
  shows "streams (gpu_context c') k = Some h"
  using assms
  by (auto simp: InitGPU_def SetDevice_def StreamCreate_def Let_def
      split: list.splits option.splits if_splits)

lemma InitGPU_twice:
  assumes "InitGPU entries is_allreduce is_para c = Inr (s, c')"
  shows "\<exists>c''. InitGPU entries is_allreduce is_para c' = Inr (s, c'')
           \<and> gpu_context c'' = gpu_context c'"
  using assms
  by (auto simp: InitGPU_def SetDevice_def StreamCreate_def Let_def
      split: list.splits option.splits if_splits)

lemma InitNewStream_twice: "InitNewStream t (InitNewStream t c) = InitNewStream t c"
  by (simp add: InitNewStream_def)

text \<open>
  C6. The first lookup of a key is to create the stream. Through \<open>InitNewStream\<close> it
  does not: on a fresh table \<open>InitNewStream 0\<close> points \<open>new_stream\<close> at slot 3 of
  generation 0, creates no stream, and the element still holds the null handle; the
  lookup of \<open>InitGPU\<close> for the same key, from the same state, creates the stream.
\<close>

theorem InitNewStream_leaves_null_handle:
  "streams (gpu_context (InitNewStream 0 (fresh_context 1 []))) (0, 3) = None
   \<and> new_stream (InitNewStream 0 (fresh_context 1 [])) = Some (0, 3)
   \<and> streams_created (gpu_context (InitNewStream 0 (fresh_context 1 []))) = 0
   \<and> map_sum id (\<lambda>r. streams (gpu_context (snd r)) (0, 3))
        (InitGPU [entry ''t'' 3 None] False False (fresh_context 1 [])) = Inr (Some 0)"
  by (simp add: InitNewStream_def InitGPU_def fresh_context_def entry_def c_rem_def c_div_def
      SetDevice_def StreamCreate_def Let_def)

text \<open>
  C10. \<open>InitNewStream\<close> never runs its stream-creation branch: whatever the argument
  and the state, the GPU context (the stream table and the number of streams created)
  and the calls issued are as before, because line 60 compares the address of the
  table element, never null, with null. For a non-negative argument the slot it selects
  is the argument modulo 10, plus 3, which lies between 3 and 12.
\<close>

theorem InitNewStream_slot_and_no_creation:
  "gpu_context (InitNewStream t c) = gpu_context c
   \<and> issued (InitNewStream t c) = issued c
   \<and> (0 \<le> t \<longrightarrow>
        new_stream (InitNewStream t c)
          = Some (current_nccl_stream (global_state c), t mod 10 + 3)
        \<and> 3 \<le> t mod 10 + 3 \<and> t mod 10 + 3 \<le> 12)"
proof -
  have "0 \<le> t \<Longrightarrow> t mod 10 \<le> 9"
    using pos_mod_bound [of 10 t] by simp
  then show ?thesis
    by (simp add: InitNewStream_def c_rem_nonneg)
qed

text \<open>
  With the argument 27 on a fresh table the slot is 10, and the element at that slot
  still holds the null handle afterwards.
\<close>

theorem InitNewStream_slot_and_no_creation_witness:
  "(0::int) \<le> 27
   \<and> new_stream (InitNewStream 27 (fresh_context 1 [])) = Some (0, 10)
   \<and> gpu_context (InitNewStream 27 (fresh_context 1 [])) = gpu_context (fresh_context 1 [])
   \<and> streams (gpu_context (InitNewStream 27 (fresh_context 1 []))) (0, 10) = None"
  using InitNewStream_slot_and_no_creation [of 27 "fresh_context 1 []"]
  by (simp add: fresh_context_def)

section \<open>Handing a batch over\<close>

text \<open>
  C2. Whenever \<open>FinalizeGPUQueue\<close> returns, the status it returns is the in-progress
  status. From a context whose stream pointer is set, on a non-empty batch, with a
  generation count that is not zero and a generation index that can be incremented, it
  does return: it has appended the marker with the empty name, recorded on the batch's
  stream, to the event queue; it has submitted one task to the pool, holding the
  entries, the queue with that marker, the host buffer pointer, the flag, the
  error-check callback and the fusion buffer of the generation the batch ran in; and
  the calling thread has issued just these two calls, no wait among them.
\<close>

theorem FinalizeGPUQueue_hands_off:
  "(case FinalizeGPUQueue entries free_host_buffer error_check_callback c of
      Inl f \<Rightarrow> True
    | Inr (st, c') \<Rightarrow> st = Status_InProgress)
   \<and> (stream c = Some p \<and> entries = e # es
        \<and> int_range (current_nccl_stream (global_state c) + 1)
        \<and> num_nccl_streams (global_state c) \<noteq> 0 \<longrightarrow>
       (\<exists>c' task.
          FinalizeGPUQueue entries free_host_buffer error_check_callback c
            = Inr (Status_InProgress, c')
          \<and> event_queue c' = event_queue c @ [([], streams (gpu_context c) p)]
          \<and> finalizer_thread_pool (gpu_context c')
              = finalizer_thread_pool (gpu_context c) @ [task]
          \<and> t_entries task = entries
          \<and> t_evt_queue task = event_queue c'
          \<and> t_cpu_buffer task = host_buffer c
          \<and> t_free_host_buffer task = free_host_buffer
          \<and> t_error_check_callback task = error_check_callback
          \<and> t_fusion_buffer task
              = (device e, context_framework e, current_nccl_stream (global_state c))
          \<and> issued c' = issued c
              @ [Call_RecordEvent [] (streams (gpu_context c) p), Call_execute task]
          \<and> waits (issued c') = waits (issued c)))"
  by (auto simp: FinalizeGPUQueue_def RecordEvent_def execute_def Let_def waits_append
      split: option.splits list.splits)

text \<open>
  One entry finished on the queued context: the status is in progress, the pool holds
  one task and the queue holds the one marker with the empty name.
\<close>

theorem FinalizeGPUQueue_hands_off_witness:
  "map_sum id fst (FinalizeGPUQueue [entry ''a'' 0 (Some 1)] True None queued_context)
     = Inr Status_InProgress
   \<and> map_sum id (\<lambda>r. length (finalizer_thread_pool (gpu_context (snd r))))
       (FinalizeGPUQueue [entry ''a'' 0 (Some 1)] True None queued_context) = Inr 1
   \<and> map_sum id (\<lambda>r. event_queue (snd r))
       (FinalizeGPUQueue [entry ''a'' 0 (Some 1)] True None queued_context)
       = Inr [([], None)]"
  using FinalizeGPUQueue_hands_off
    [of "[entry ''a'' 0 (Some 1)]" True None queued_context "(0, 5)" "entry ''a'' 0 (Some 1)" "[]"]
  by (auto simp: queued_context_def fresh_context_def int_range_def)

section \<open>The generation index\<close>

text \<open>
  One call of \<open>FinalizeGPUQueue\<close> from a generation index inside the range moves it
  one step round the generations and keeps the stream pointer and the generation count.
\<close>

lemma FinalizeGPUQueue_step:
  assumes "stream c = Some p" and "entries \<noteq> []"
    and "0 \<le> current_nccl_stream (global_state c)"
    and "current_nccl_stream (global_state c) < num_nccl_streams (global_state c)"
    and "int_range (num_nccl_streams (global_state c))"
  shows "\<exists>c'. FinalizeGPUQueue entries free_host_buffer error_check_callback c
                 = Inr (Status_InProgress, c')
            \<and> stream c' = Some p
            \<and> num_nccl_streams (global_state c') = num_nccl_streams (global_state c)
            \<and> current_nccl_stream (global_state c')
                = (current_nccl_stream (global_state c) + 1)
                    mod num_nccl_streams (global_state c)"
proof -
  obtain e es where "entries = e # es"
    using assms(2) by (cases entries) auto
  moreover have "int_range (current_nccl_stream (global_state c) + 1)"
    using assms(3-5) by (simp add: int_range_def)
  moreover have "c_rem (current_nccl_stream (global_state c) + 1) (num_nccl_streams (global_state c))
      = (current_nccl_stream (global_state c) + 1) mod num_nccl_streams (global_state c)"
    using assms(3,4) by (intro c_rem_nonneg) auto
  ultimately show ?thesis
    using assms(1,3,4)
    by (auto simp: FinalizeGPUQueue_def RecordEvent_def execute_def Let_def)
qed

lemma finalize_batches_rotation:
  assumes "stream c = Some p" and "\<forall>b \<in> set bs. fst b \<noteq> []"
    and "0 \<le> current_nccl_stream (global_state c)"
    and "current_nccl_stream (global_state c) < num_nccl_streams (global_state c)"
    and "int_range (num_nccl_streams (global_state c))"
  shows "\<exists>c'. finalize_batches bs c = Inr c'
            \<and> num_nccl_streams (global_state c') = num_nccl_streams (global_state c)
            \<and> current_nccl_stream (global_state c')
                = (current_nccl_stream (global_state c) + int (length bs))
                    mod num_nccl_streams (global_state c)"
  using assms
proof (induction bs arbitrary: c)
  case Nil
  then show ?case by simp
next
  case (Cons b bs)
  obtain entries fhb ecb where b: "b = (entries, fhb, ecb)"
    by (cases b) auto
  let ?n = "num_nccl_streams (global_state c)"
  let ?k = "current_nccl_stream (global_state c)"
  from Cons.prems b have ne: "entries \<noteq> []" by simp
  from FinalizeGPUQueue_step [OF Cons.prems(1) ne Cons.prems(3) Cons.prems(4) Cons.prems(5)]
  obtain c1 where c1: "FinalizeGPUQueue entries fhb ecb c = Inr (Status_InProgress, c1)"
    and s1: "stream c1 = Some p"
    and n1: "num_nccl_streams (global_state c1) = ?n"
    and k1: "current_nccl_stream (global_state c1) = (?k + 1) mod ?n"
    by blast
  have pos: "0 < ?n" using Cons.prems(3,4) by simp
  have lo: "0 \<le> current_nccl_stream (global_state c1)"
    using k1 pos by simp
  have hi: "current_nccl_stream (global_state c1) < num_nccl_streams (global_state c1)"
    using k1 n1 pos by simp
  have rng: "int_range (num_nccl_streams (global_state c1))"
    using n1 Cons.prems(5) by simp
  have rest: "\<forall>b \<in> set bs. fst b \<noteq> []"
    using Cons.prems(2) by simp
  from Cons.IH [OF s1 rest lo hi rng]
  obtain c' where c': "finalize_batches bs c1 = Inr c'"
    and n': "num_nccl_streams (global_state c') = num_nccl_streams (global_state c1)"
    and k': "current_nccl_stream (global_state c')
               = (current_nccl_stream (global_state c1) + int (length bs))
                   mod num_nccl_streams (global_state c1)"
    by blast
  have "((?k + 1) mod ?n + int (length bs)) mod ?n = ((?k + 1) + int (length bs)) mod ?n"
    by (rule mod_add_left_eq)
  also have "\<dots> = (?k + int (length (b # bs))) mod ?n"
    by (simp add: add.assoc)
  finally have "current_nccl_stream (global_state c') = (?k + int (length (b # bs))) mod ?n"
    using k' k1 n1 by simp
  with c1 c' n' n1 b show ?case
    by simp
qed

text \<open>
  C5. From a generation index \<open>k\<close> with \<open>0 \<le> k < G\<close>, \<open>G\<close> the configured number of
  generations, every call of \<open>FinalizeGPUQueue\<close> on a non-empty batch returns with the
  index at \<open>(k + 1) mod G\<close>; a run of batches, each finished by one call, returns with
  the index at \<open>(k + n) mod G\<close> for \<open>n\<close> batches, which is inside \<open>0 \<le> _ < G\<close> again
  and is \<open>k\<close> itself after \<open>G\<close> batches.
\<close>

theorem generation_index_rotation:
  assumes "stream c = Some p" and "\<forall>b \<in> set bs. fst b \<noteq> []"
    and "0 \<le> current_nccl_stream (global_state c)"
    and "current_nccl_stream (global_state c) < num_nccl_streams (global_state c)"
    and "int_range (num_nccl_streams (global_state c))"
  shows "(\<forall>entries free_host_buffer error_check_callback. entries \<noteq> [] \<longrightarrow>
            (\<exists>c'. FinalizeGPUQueue entries free_host_buffer error_check_callback c
                     = Inr (Status_InProgress, c')
                \<and> current_nccl_stream (global_state c')
                     = (current_nccl_stream (global_state c) + 1)
                         mod num_nccl_streams (global_state c)))
         \<and> (\<exists>c'. finalize_batches bs c = Inr c'
               \<and> num_nccl_streams (global_state c') = num_nccl_streams (global_state c)
               \<and> current_nccl_stream (global_state c')
                   = (current_nccl_stream (global_state c) + int (length bs))
                       mod num_nccl_streams (global_state c)
               \<and> 0 \<le> current_nccl_stream (global_state c')
               \<and> current_nccl_stream (global_state c') < num_nccl_streams (global_state c)
               \<and> (int (length bs) = num_nccl_streams (global_state c) \<longrightarrow>
                    current_nccl_stream (global_state c') = current_nccl_stream (global_state c)))"
proof -
  have pos: "0 < num_nccl_streams (global_state c)"
    using assms(3,4) by simp
  have one: "\<exists>c'. FinalizeGPUQueue entries fhb ecb c = Inr (Status_InProgress, c')
                \<and> current_nccl_stream (global_state c')
                     = (current_nccl_stream (global_state c) + 1)
                         mod num_nccl_streams (global_state c)"
    if "entries \<noteq> []" for entries fhb ecb
    using FinalizeGPUQueue_step [OF assms(1) that assms(3) assms(4) assms(5), of fhb ecb]
    by blast
  obtain c' where c': "finalize_batches bs c = Inr c'"
    and n': "num_nccl_streams (global_state c') = num_nccl_streams (global_state c)"
    and k': "current_nccl_stream (global_state c')
               = (current_nccl_stream (global_state c) + int (length bs))
                   mod num_nccl_streams (global_state c)"
    using finalize_batches_rotation [OF assms] by blast
  have "0 \<le> current_nccl_stream (global_state c')"
    and "current_nccl_stream (global_state c') < num_nccl_streams (global_state c)"
    using k' pos by simp_all
  moreover have "current_nccl_stream (global_state c') = current_nccl_stream (global_state c)"
    if "int (length bs) = num_nccl_streams (global_state c)"
    using k' that assms(3,4) by simp
  ultimately show ?thesis
    using one c' n' k' by blast
qed

text \<open>
  Two generations, index 0: one batch leaves the index at 1, three batches leave it
  at 1 as well, having wrapped once.
\<close>

theorem generation_index_rotation_witness:
  "stream queued_context = Some (0, 5)
   \<and> current_nccl_stream (global_state queued_context) = 0
   \<and> num_nccl_streams (global_state queued_context) = 2
   \<and> map_sum id (\<lambda>c. current_nccl_stream (global_state c))
       (finalize_batches three_batches queued_context) = Inr 1
   \<and> map_sum id (\<lambda>r. current_nccl_stream (global_state (snd r)))
       (FinalizeGPUQueue [entry ''a'' 0 (Some 1)] True None queued_context) = Inr 1"
proof -
  have h1: "stream queued_context = Some (0, 5)"
    and k: "current_nccl_stream (global_state queued_context) = 0"
    and n: "num_nccl_streams (global_state queued_context) = 2"
    by (simp_all add: queued_context_def fresh_context_def)
  have h2: "\<forall>b \<in> set three_batches. fst b \<noteq> []"
    by (simp add: three_batches_def)
  have h3: "0 \<le> current_nccl_stream (global_state queued_context)"
    and h4: "current_nccl_stream (global_state queued_context)
               < num_nccl_streams (global_state queued_context)"
    and h5: "int_range (num_nccl_streams (global_state queued_context))"
    using k n by (simp_all add: int_range_def)
  note rot = generation_index_rotation [OF h1 h2 h3 h4 h5]
  from rot obtain c' where "finalize_batches three_batches queued_context = Inr c'"
    and "current_nccl_stream (global_state c')
           = (current_nccl_stream (global_state queued_context) + int (length three_batches))
               mod num_nccl_streams (global_state queued_context)"
    by blast
  then have many: "map_sum id (\<lambda>c. current_nccl_stream (global_state c))
       (finalize_batches three_batches queued_context) = Inr 1"
    using k n by (simp add: three_batches_def)
  have "[entry ''a'' 0 (Some 1)] \<noteq> []" by simp
  with rot obtain c1 where
    "FinalizeGPUQueue [entry ''a'' 0 (Some 1)] True None queued_context
       = Inr (Status_InProgress, c1)"
    and "current_nccl_stream (global_state c1)
           = (current_nccl_stream (global_state queued_context) + 1)
               mod num_nccl_streams (global_state queued_context)"
    by blast
  then have single: "map_sum id (\<lambda>r. current_nccl_stream (global_state (snd r)))
       (FinalizeGPUQueue [entry ''a'' 0 (Some 1)] True None queued_context) = Inr 1"
    using k n by simp
  show ?thesis
    using h1 k n many single by simp
qed

section \<open>The finalization task\<close>

lemma fusion_buffers_released_append:
  "fusion_buffers_released (xs @ ys) = fusion_buffers_released xs @ fusion_buffers_released ys"
  by (induction xs rule: fusion_buffers_released.induct) simp_all

lemma fusion_buffers_released_shutdown: "fusion_buffers_released (shutdown_entries es) = []"
  by (induction es) (simp_all split: option.splits)

text \<open>
  A run whose wait returns ends without an exception, and the worker then releases the
  task's reference to the fusion buffer, once.
\<close>

lemma worker_runs_task_returned:
  "snd (worker_runs_task t WaitReturned) = None
   \<and> fusion_buffers_released (fst (worker_runs_task t WaitReturned)) = [t_fusion_buffer t]"
  by (simp add: worker_runs_task_def run_finalization_task_def fusion_buffers_released_append
      fusion_buffers_released_shutdown split: option.splits bool.splits)




text \<open>
  C7, as the claim states it, fails: the batch with the join request is handed to the
  finalization task with freeing requested and the host buffer pointer not null, and
  the wait raises. The entries with callbacks 1 and 3 are not served and the host
  buffer is not freed.
\<close>

theorem wait_exception_skips_callbacks_and_free:
  "callbacks_of (t_entries join_batch) = [1, 3]
   \<and> t_free_host_buffer join_batch
   \<and> t_cpu_buffer join_batch = Some 7
   \<and> callbacks_invoked (fst (run_finalization_task join_batch (WaitThrew ''device lost''))) = []
   \<and> buffers_freed (fst (run_finalization_task join_batch (WaitThrew ''device lost''))) = []"
  by (simp add: run_finalization_task_def join_batch_def batch3_def entry_def)

text \<open>
  C7, amended. For every batch handed to the finalization task whose event wait
  returns, the task ends without an exception, the callbacks invoked are those of the
  entries whose callback is not null, each once and in batch order (an entry with a
  null callback is passed over and the entries after it are still served), and the host
  buffer is freed exactly when freeing was requested and the buffer pointer is not
  null. On every run, whether the wait returns or raises, the host buffer is never
  freed otherwise, and never twice.
\<close>

theorem finalization_task_null_callbacks_and_host_buffer:
  "snd (run_finalization_task t WaitReturned) = None
   \<and> map fst (callbacks_invoked (fst (run_finalization_task t WaitReturned)))
       = callbacks_of (t_entries t)
   \<and> (b \<in> set (buffers_freed (fst (run_finalization_task t WaitReturned)))
        \<longleftrightarrow> t_free_host_buffer t \<and> t_cpu_buffer t = Some b)
   \<and> (b \<in> set (buffers_freed (fst (run_finalization_task t w)))
        \<longrightarrow> t_free_host_buffer t \<and> t_cpu_buffer t = Some b)
   \<and> length (buffers_freed (fst (run_finalization_task t w))) \<le> 1"
  by (cases w)
     (auto simp: run_finalization_task_def callbacks_invoked_append buffers_freed_append
        callbacks_invoked_shutdown buffers_freed_shutdown comp_def
        split: option.splits bool.splits)

text \<open>
  The batch with the join request, the wait returning: callbacks 1 and 3 are invoked
  and the buffer 7 is freed; with freeing not requested it is not.
\<close>

theorem finalization_task_null_callbacks_and_host_buffer_witness:
  "map fst (callbacks_invoked (fst (run_finalization_task join_batch WaitReturned))) = [1, 3]
   \<and> 7 \<in> set (buffers_freed (fst (run_finalization_task join_batch WaitReturned)))
   \<and> 7 \<notin> set (buffers_freed
        (fst (run_finalization_task (join_batch\<lparr>t_free_host_buffer := False\<rparr>) WaitReturned)))"
  using finalization_task_null_callbacks_and_host_buffer [of join_batch 7 WaitReturned]
    finalization_task_null_callbacks_and_host_buffer
      [of "join_batch\<lparr>t_free_host_buffer := False\<rparr>" 7 WaitReturned]
  by (simp add: join_batch_def batch3_def entry_def)

end
